theory Spec2Isabelle
  imports Complex_Main "HOL-Library.Log_Nat"
begin

section \<open>Python exceptions and floats\<close>

text \<open>The exceptions the modelled code can meet; all are subclasses of \<open>Exception\<close>.\<close>

datatype py_error =
  InvalidOperation | ValueError | TypeError | ObjectDoesNotExist | RecursionError
  | OverflowError | ZeroDivisionError

text \<open>
  A float is a binary64 number, taken as the rational it denotes, or an infinity with
  its sign (true when negative). A NaN does not arise in the modelled code, and the sign
  of a zero is dropped, which the conversion to an integer does not see.

  \<open>binade x\<close> is the exponent of the power of two at or below the magnitude of a
  non-zero \<open>x\<close>. \<open>to_binary64\<close> rounds a rational to the nearest binary64 number,
  ties to the even significand: the spacing is that of 53-bit significands in the binade
  of \<open>x\<close>, or of the subnormal numbers below the smallest normal binade, and a rounded
  magnitude of 2 to the 1024 or more is an overflow.
\<close>

datatype py_float = Binary64 rat | Float_inf bool

definition binade :: "rat \<Rightarrow> int" where
  "binade x =
     (let (p, q) = quotient_of \<bar>x\<bar>; e0 = bitlen p - bitlen q
      in if 2 powi e0 \<le> \<bar>x\<bar> then e0 else e0 - 1)"

definition round_half_even :: "rat \<Rightarrow> int" where
  "round_half_even q =
     (let f = \<lfloor>q\<rfloor>; d = q - of_int f
      in if d < 1 / 2 then f else if 1 / 2 < d then f + 1 else if even f then f else f + 1)"

definition to_binary64 :: "rat \<Rightarrow> py_float" where
  "to_binary64 x =
     (if x = 0 then Binary64 0
      else (let ulp = 2 powi (max (binade x - 52) (- 1074));
                y = of_int (round_half_even (x / ulp)) * ulp
            in if 2 ^ 1024 \<le> \<bar>y\<bar> then Float_inf (x < 0) else Binary64 y))"

text \<open>
  \<open>a / b\<close> on integers is the correctly rounded quotient, and raises when the divisor
  is zero or the result is too large for a float. The product of two floats is the
  rounded product and overflows to an infinity without raising. \<open>int(x)\<close> truncates
  towards zero and raises on an infinity.
\<close>

definition int_true_divide :: "int \<Rightarrow> int \<Rightarrow> py_error + rat" where
  "int_true_divide a b =
     (if b = 0 then Inl ZeroDivisionError
      else (case to_binary64 (of_int a / of_int b) of
              Float_inf s \<Rightarrow> Inl OverflowError
            | Binary64 y \<Rightarrow> Inr y))"

definition float_mul :: "rat \<Rightarrow> rat \<Rightarrow> py_float" where
  "float_mul x y = to_binary64 (x * y)"

definition py_int :: "py_float \<Rightarrow> py_error + int" where
  "py_int x =
     (case x of
        Float_inf s \<Rightarrow> Inl OverflowError
      | Binary64 y \<Rightarrow> Inr (if y < 0 then \<lceil>y\<rceil> else \<lfloor>y\<rfloor>))"

section \<open>The testing pipeline: \<open>TestRequest\<close> (apps/testing/models.py)\<close>

text \<open>
  A \<open>TestRequest\<close> row. \<open>status\<close> is a \<open>CharField\<close>, so it is a string and is
  compared with the literals the source compares it with; \<open>current_step\<close> is an
  \<open>IntegerField\<close>, a Python integer. The foreign keys are kept as the ids Django
  exposes (\<open>controller_user_id\<close>, \<open>product_id\<close>); \<open>is_active\<close> comes from
  \<open>BaseModel\<close>. The instance is saved after each mutation, so one record stands for both
  the object and its row.
\<close>

record test_request =
  request_id :: nat
  controller_user_id :: nat
  product_id :: nat
  status :: string
  current_step :: int
  is_active :: bool

text \<open>
  \<open>get_progress_percentage\<close>. The last branch is \<open>int((self.current_step / 4) * 100)\<close>:
  a true division of integers, a float product with 100 (the integer 100 converts to
  the float exactly), and the conversion to an integer. The result is the integer the
  method returns, or the exception the last branch raises on a step too large for a
  float.
\<close>

definition get_progress_percentage :: "test_request \<Rightarrow> py_error + int" where
  "get_progress_percentage r =
     (if status r = ''Approved'' \<or> (status r = ''Completed'' \<and> current_step r = 4)
      then Inr 100
      else if status r = ''Submitted for Review'' then Inr 75
      else if current_step r = 4 then Inr 100
      else (case int_true_divide (current_step r) 4 of
              Inl e \<Rightarrow> Inl e
            | Inr x \<Rightarrow> py_int (float_mul x 100)))"

definition can_proceed_to_next_step :: "test_request \<Rightarrow> bool" where
  "can_proceed_to_next_step r =
     (if status r = ''Rejected'' then False
      else if current_step r \<ge> 4 then False
      else True)"

text \<open>
  \<open>advance_step\<close> mutates the instance and returns a flag; the model returns the flag
  with the instance after the call.
\<close>

definition advance_step :: "test_request \<Rightarrow> bool \<times> test_request" where
  "advance_step r =
     (if can_proceed_to_next_step r then
        (let r1 = r\<lparr>current_step := current_step r + 1\<rparr>;
             r2 = (if current_step r1 = 4 then r1\<lparr>status := ''Completed''\<rparr>
                   else r1\<lparr>status := ''In-Progress''\<rparr>)
         in (True, r2))
      else (False, r))"

text \<open>
  The progress table as the specification words it: the floor of a quarter of the step
  times a hundred in the last row.
\<close>

definition spec_progress :: "string \<Rightarrow> int \<Rightarrow> int" where
  "spec_progress st step =
     (if st = ''Approved'' \<or> (st = ''Completed'' \<and> step = 4) then 100
      else if st = ''Submitted for Review'' then 75
      else if step = 4 then 100
      else \<lfloor>(of_int step / 4 * 100 :: rat)\<rfloor>)"

section \<open>Python strings and \<open>decimal.Decimal\<close>\<close>

text \<open>
  Strings are lists of 8-bit characters, each read as the code point of that number, so
  the strings of the model are the Python strings whose code points are below 256. On
  these, \<open>str.strip\<close> removes leading and trailing whitespace (tab, line feed, vertical
  tab, form feed, carriage return, the four separators 28 to 31, the space, and the code
  points 0x85 and 0xA0), and \<open>str.lower\<close> maps \<open>A\<close> to \<open>Z\<close> and the capital letters
  0xC0 to 0xDE other than the multiplication sign 0xD7 to the code point 32 above and
  leaves every other character. A string is ASCII when all its code points are below 128.
\<close>

definition whitespace :: "char list" where
  "whitespace = [CHR 0x09, CHR 0x0A, CHR 0x0B, CHR 0x0C, CHR 0x0D,
                 CHR 0x1C, CHR 0x1D, CHR 0x1E, CHR 0x1F, CHR 0x20, CHR 0x85, CHR 0xA0]"

definition py_isspace :: "char \<Rightarrow> bool" where
  "py_isspace c = (c \<in> set whitespace)"

definition py_strip :: "string \<Rightarrow> string" where
  "py_strip s = rev (dropWhile py_isspace (rev (dropWhile py_isspace s)))"

definition uppercase :: "char list" where
  "uppercase = ''ABCDEFGHIJKLMNOPQRSTUVWXYZ'' @
     [CHR 0xC0, CHR 0xC1, CHR 0xC2, CHR 0xC3, CHR 0xC4, CHR 0xC5, CHR 0xC6, CHR 0xC7,
      CHR 0xC8, CHR 0xC9, CHR 0xCA, CHR 0xCB, CHR 0xCC, CHR 0xCD, CHR 0xCE, CHR 0xCF,
      CHR 0xD0, CHR 0xD1, CHR 0xD2, CHR 0xD3, CHR 0xD4, CHR 0xD5, CHR 0xD6,
      CHR 0xD8, CHR 0xD9, CHR 0xDA, CHR 0xDB, CHR 0xDC, CHR 0xDD, CHR 0xDE]"

definition lowercase :: "char list" where
  "lowercase = ''abcdefghijklmnopqrstuvwxyz'' @
     [CHR 0xE0, CHR 0xE1, CHR 0xE2, CHR 0xE3, CHR 0xE4, CHR 0xE5, CHR 0xE6, CHR 0xE7,
      CHR 0xE8, CHR 0xE9, CHR 0xEA, CHR 0xEB, CHR 0xEC, CHR 0xED, CHR 0xEE, CHR 0xEF,
      CHR 0xF0, CHR 0xF1, CHR 0xF2, CHR 0xF3, CHR 0xF4, CHR 0xF5, CHR 0xF6,
      CHR 0xF8, CHR 0xF9, CHR 0xFA, CHR 0xFB, CHR 0xFC, CHR 0xFD, CHR 0xFE]"

definition lower_char :: "char \<Rightarrow> char" where
  "lower_char c =
     (case map_of (zip uppercase lowercase) c of
        None \<Rightarrow> c
      | Some l \<Rightarrow> l)"

definition is_ascii :: "string \<Rightarrow> bool" where
  "is_ascii s = list_all (\<lambda>c. (of_char c :: nat) < 128) s"

definition py_lower :: "string \<Rightarrow> string" where
  "py_lower s = map lower_char s"

definition is_digit :: "char \<Rightarrow> bool" where
  "is_digit c = (c \<in> set ''0123456789'')"

definition digit_value :: "char \<Rightarrow> nat" where
  "digit_value c = of_char c - 48"

definition nat_of_digits :: "string \<Rightarrow> nat" where
  "nat_of_digits ds = foldl (\<lambda>n c. 10 * n + digit_value c) 0 ds"

definition digit_char :: "nat \<Rightarrow> char" where
  "digit_char n = ''0123456789'' ! n"

fun digits_of_nat :: "nat \<Rightarrow> string" where
  "digits_of_nat n =
     (if n < 10 then [digit_char n]
      else digits_of_nat (n div 10) @ [digit_char (n mod 10)])"

text \<open>
  A finite decimal is a sign, a coefficient and an exponent, as \<open>Decimal.as_tuple\<close>
  shows it; a \<open>Decimal\<close> is a finite decimal, an infinity with its sign, or a NaN with
  its sign, its signalling flag and its diagnostic digits.
\<close>

datatype number = Number (negative: bool) (coefficient: nat) (exponent: int)

datatype decimal = Finite number | Infinity bool | NaN bool bool nat

text \<open>
  \<open>Decimal(s)\<close> for a string, after the grammar of the \<open>decimal\<close> module: the string is
  stripped, underscores are removed, case is ignored; an optional sign is followed by a
  number with at least one digit (integer part, optional fraction, optional exponent), by
  \<open>Inf\<close> or \<open>Infinity\<close>, or by \<open>NaN\<close> or \<open>sNaN\<close> with optional digits. Anything else
  raises \<open>decimal.InvalidOperation\<close>, an \<open>ArithmeticError\<close>. The conversion is
  exact, and the \<open>_decimal\<close> module of a 64-bit interpreter refuses, with the same
  exception, a finite number whose exponent is below \<open>MIN_ETINY\<close>
  (-1999999999999999997) or whose adjusted exponent (the exponent plus the number of
  digits of the coefficient, less one) is above \<open>MAX_EMAX\<close> (999999999999999999).
\<close>

definition split_sign :: "string \<Rightarrow> bool \<times> string" where
  "split_sign s =
     (case s of
        [] \<Rightarrow> (False, s)
      | c # r \<Rightarrow> if c = CHR ''-'' then (True, r) else if c = CHR ''+'' then (False, r)
                 else (False, s))"

definition parse_exponent :: "string \<Rightarrow> int option" where
  "parse_exponent t =
     (let (eneg, ds) = split_sign t in
      if ds \<noteq> [] \<and> list_all is_digit ds
      then Some (if eneg then - int (nat_of_digits ds) else int (nat_of_digits ds))
      else None)"

definition parse_finite :: "string \<Rightarrow> (nat \<times> int) option" where
  "parse_finite body =
     (let intpart = takeWhile is_digit body;
          r1 = dropWhile is_digit body;
          (fracpart, r2) =
            (case r1 of
               [] \<Rightarrow> ([], r1)
             | c # t \<Rightarrow> if c = CHR ''.'' then (takeWhile is_digit t, dropWhile is_digit t)
                        else ([], r1))
      in if intpart = [] \<and> fracpart = [] then None
         else (case (case r2 of
                       [] \<Rightarrow> Some 0
                     | c # t \<Rightarrow> if c = CHR ''e'' then parse_exponent t else None) of
                 None \<Rightarrow> None
               | Some e \<Rightarrow> Some (nat_of_digits (intpart @ fracpart), e - int (length fracpart))))"

definition parse_nan :: "string \<Rightarrow> (bool \<times> nat) option" where
  "parse_nan body =
     (let (signal, r) =
            (case body of
               [] \<Rightarrow> (False, body)
             | c # t \<Rightarrow> if c = CHR ''s'' then (True, t) else (False, body))
      in if take 3 r = ''nan'' \<and> list_all is_digit (drop 3 r)
         then Some (signal, nat_of_digits (drop 3 r))
         else None)"

definition exponent_in_range :: "nat \<Rightarrow> int \<Rightarrow> bool" where
  "exponent_in_range c e =
     (- 1999999999999999997 \<le> e
      \<and> e + int (length (digits_of_nat c)) - 1 \<le> 999999999999999999)"

definition Decimal :: "string \<Rightarrow> py_error + decimal" where
  "Decimal s =
     (let (neg, body) = split_sign (py_lower (filter (\<lambda>c. c \<noteq> CHR ''_'') (py_strip s))) in
      case parse_finite body of
        Some (c, e) \<Rightarrow>
          if exponent_in_range c e then Inr (Finite (Number neg c e))
          else Inl InvalidOperation
      | None \<Rightarrow>
          if body = ''inf'' \<or> body = ''infinity'' then Inr (Infinity neg)
          else (case parse_nan body of
                  Some (signal, diag) \<Rightarrow> Inr (NaN neg signal diag)
                | None \<Rightarrow> Inl InvalidOperation))"

text \<open>
  The value of a finite decimal, and the ordering comparisons. \<open><\<close> and \<open>>\<close> on
  decimals signal \<open>InvalidOperation\<close> when an operand is a NaN, and the default context
  traps the signal, so the comparison raises; otherwise they compare the values, the
  infinities below and above every number.
\<close>

definition number_value :: "number \<Rightarrow> rat" where
  "number_value x =
     (let m = (if negative x then - of_nat (coefficient x) else of_nat (coefficient x)) in
      if exponent x \<ge> 0 then m * 10 ^ nat (exponent x) else m / 10 ^ nat (- exponent x))"

fun dec_lt :: "decimal \<Rightarrow> decimal \<Rightarrow> py_error + bool" where
  "dec_lt (NaN s g d) y = Inl InvalidOperation"
| "dec_lt x (NaN s g d) = Inl InvalidOperation"
| "dec_lt (Infinity sx) (Infinity sy) = Inr (sx \<and> \<not> sy)"
| "dec_lt (Infinity sx) (Finite y) = Inr sx"
| "dec_lt (Finite x) (Infinity sy) = Inr (\<not> sy)"
| "dec_lt (Finite x) (Finite y) = Inr (number_value x < number_value y)"

definition dec_gt :: "decimal \<Rightarrow> decimal \<Rightarrow> py_error + bool" where
  "dec_gt x y = dec_lt y x"

text \<open>
  \<open>str\<close> of a decimal (the scientific string of the \<open>decimal\<close> module, with capital
  \<open>E\<close>), which the f-strings of the messages call.
\<close>

definition signed_int_str :: "int \<Rightarrow> string" where
  "signed_int_str i = (if i < 0 then ''-'' @ digits_of_nat (nat (- i)) else ''+'' @ digits_of_nat (nat i))"

definition number_str :: "number \<Rightarrow> string" where
  "number_str x =
     (let ds = digits_of_nat (coefficient x);
          leftdigits = exponent x + int (length ds);
          dotplace = (if exponent x \<le> 0 \<and> leftdigits > - 6 then leftdigits else 1);
          intpart = (if dotplace \<le> 0 then ''0''
                     else if dotplace \<ge> int (length ds)
                          then ds @ replicate (nat (dotplace - int (length ds))) (CHR ''0'')
                     else take (nat dotplace) ds);
          fracpart = (if dotplace \<le> 0 then ''.'' @ replicate (nat (- dotplace)) (CHR ''0'') @ ds
                      else if dotplace \<ge> int (length ds) then []
                      else ''.'' @ drop (nat dotplace) ds);
          exp = (if leftdigits = dotplace then [] else ''E'' @ signed_int_str (leftdigits - dotplace))
      in (if negative x then ''-'' else []) @ intpart @ fracpart @ exp)"

fun decimal_str :: "decimal \<Rightarrow> string" where
  "decimal_str (Finite x) = number_str x"
| "decimal_str (Infinity s) = (if s then ''-'' else []) @ ''Infinity''"
| "decimal_str (NaN s g d) =
     (if s then ''-'' else []) @ (if g then ''sNaN'' else ''NaN'')
       @ (if d = 0 then [] else digits_of_nat d)"

section \<open>The specification validator (apps/quality/models.py)\<close>

text \<open>
  \<open>TestParameter\<close> with its data type tag, and \<open>ProductSpecification\<close>. The bounds are
  \<open>DecimalField\<close>s, null or a finite decimal; \<open>standard_text_value\<close> is a \<open>CharField\<close>,
  never null, empty when nothing is configured.
\<close>

record test_parameter =
  param_id :: nat
  data_type :: string

record product_specification =
  spec_product_id :: nat
  parameter :: test_parameter
  min_value :: "number option"
  max_value :: "number option"
  standard_text_value :: string
  spec_is_active :: bool

text \<open>
  The body of the \<open>try\<close> of the Numeric branch: the conversion, then the comparison
  with the minimum when it is set, then the comparison with the maximum when it is set.
  The conversion and each comparison may raise.
\<close>

definition check_maximum :: "product_specification \<Rightarrow> decimal \<Rightarrow> py_error + (bool \<times> string option)" where
  "check_maximum spec v =
     (case max_value spec of
        None \<Rightarrow> Inr (True, None)
      | Some mx \<Rightarrow>
          (case dec_gt v (Finite mx) of
             Inl e \<Rightarrow> Inl e
           | Inr is_above \<Rightarrow>
               if is_above
               then Inr (False, Some (''Value '' @ decimal_str v @ '' is above maximum ''
                                        @ number_str mx))
               else Inr (True, None)))"

definition numeric_try :: "product_specification \<Rightarrow> string \<Rightarrow> py_error + (bool \<times> string option)" where
  "numeric_try spec actual_value =
     (case Decimal actual_value of
        Inl e \<Rightarrow> Inl e
      | Inr v \<Rightarrow>
          (case min_value spec of
             None \<Rightarrow> check_maximum spec v
           | Some mn \<Rightarrow>
               (case dec_lt v (Finite mn) of
                  Inl e \<Rightarrow> Inl e
                | Inr is_below \<Rightarrow>
                    if is_below
                    then Inr (False, Some (''Value '' @ decimal_str v @ '' is below minimum ''
                                             @ number_str mn))
                    else check_maximum spec v)))"

definition truthy_tokens :: "string list" where
  "truthy_tokens = [''true'', ''yes'', ''1'', ''pass'']"

definition quote :: string where
  "quote = [CHR 0x27]"

text \<open>
  \<open>validate_value\<close>: the result is the pair the source returns, or the exception that
  leaves it. The handler of the Numeric branch catches \<open>ValueError\<close> and \<open>TypeError\<close>
  only.
\<close>

definition validate_value :: "product_specification \<Rightarrow> string \<Rightarrow> py_error + (bool \<times> string option)" where
  "validate_value spec actual_value =
     (if data_type (parameter spec) = ''Numeric'' then
        (case numeric_try spec actual_value of
           Inr res \<Rightarrow> Inr res
         | Inl e \<Rightarrow>
             if e = ValueError \<or> e = TypeError
             then Inr (False, Some (''Invalid numeric value: '' @ actual_value))
             else Inl e)
      else if data_type (parameter spec) = ''Text'' then
        (if standard_text_value spec \<noteq> [] then
           (if py_lower (py_strip actual_value)
                 \<noteq> py_lower (py_strip (standard_text_value spec))
            then Inr (False, Some (''Value '' @ quote @ actual_value @ quote
                                     @ '' does not match standard '' @ quote
                                     @ standard_text_value spec @ quote))
            else Inr (True, None))
         else Inr (True, None))
      else if data_type (parameter spec) = ''Boolean'' then
        (if standard_text_value spec \<noteq> [] then
           (let expected = (py_lower (py_strip (standard_text_value spec)) \<in> set truthy_tokens);
                actual = (py_lower (py_strip actual_value) \<in> set truthy_tokens)
            in if expected \<noteq> actual
               then Inr (False, Some ''Boolean value mismatch'')
               else Inr (True, None))
         else Inr (True, None))
      else Inr (True, None))"

section \<open>The result evaluator: \<open>TestResult\<close> (apps/testing/models.py)\<close>

text \<open>
  A \<open>TestResult\<close> with the fields the evaluator reads and writes. The two foreign keys
  are the ids Django exposes, \<open>None\<close> while unset; an id that is set is truthy. The
  state of a call is the Python instance together with its database row: a full
  \<open>Model.save\<close> writes every column of the instance to the row, one with
  \<open>update_fields\<close> writes the listed columns only. The row is taken to exist and the
  writes to succeed (the persistence layer is a collaborator).
\<close>

record test_result =
  test_request_id :: "nat option"
  parameter_id :: "nat option"
  actual_value :: string
  pass_fail_status :: "bool option"

record result_state =
  inst :: test_result
  row :: test_result

text \<open>The tables the lookup of the specification reads.\<close>

record environment =
  test_requests :: "test_request list"
  specifications :: "product_specification list"

text \<open>A call returns a value or raises, and either way leaves a state.\<close>

datatype 'a outcome = Returns 'a result_state | Raises py_error result_state

definition written :: "string list option \<Rightarrow> string \<Rightarrow> bool" where
  "written update_fields name =
     (case update_fields of None \<Rightarrow> True | Some fs \<Rightarrow> name \<in> set fs)"

definition Model_save :: "string list option \<Rightarrow> result_state \<Rightarrow> result_state" where
  "Model_save update_fields st =
     st\<lparr>row := \<lparr>
       test_request_id = (if written update_fields ''test_request''
                          then test_request_id (inst st) else test_request_id (row st)),
       parameter_id = (if written update_fields ''parameter''
                       then parameter_id (inst st) else parameter_id (row st)),
       actual_value = (if written update_fields ''actual_value''
                       then actual_value (inst st) else actual_value (row st)),
       pass_fail_status = (if written update_fields ''pass_fail_status''
                           then pass_fail_status (inst st) else pass_fail_status (row st))\<rparr>\<rparr>"

text \<open>
  \<open>self.test_request.product.specifications.filter(parameter=self.parameter,
  is_active=True).first()\<close>: following an unset or dangling foreign key raises
  (\<open>RelatedObjectDoesNotExist\<close>); \<open>first()\<close> gives the first matching row or \<open>None\<close>.
\<close>

definition find_specification :: "environment \<Rightarrow> test_result \<Rightarrow> py_error + product_specification option" where
  "find_specification env r =
     (case test_request_id r of
        None \<Rightarrow> Inl ObjectDoesNotExist
      | Some rid \<Rightarrow>
          (case find (\<lambda>q. request_id q = rid) (test_requests env) of
             None \<Rightarrow> Inl ObjectDoesNotExist
           | Some q \<Rightarrow>
               (case parameter_id r of
                  None \<Rightarrow> Inl ObjectDoesNotExist
                | Some pid \<Rightarrow>
                    Inr (find (\<lambda>s. spec_product_id s = product_id q
                                    \<and> param_id (parameter s) = pid \<and> spec_is_active s)
                           (specifications env)))))"

definition set_status :: "bool option \<Rightarrow> result_state \<Rightarrow> result_state" where
  "set_status v st = st\<lparr>inst := (inst st)\<lparr>pass_fail_status := v\<rparr>\<rparr>"

definition status_fields :: "string list option" where
  "status_fields = Some [''pass_fail_status'', ''updated_at'']"

text \<open>
  \<open>calculate_pass_fail\<close> and the overridden \<open>save\<close> call each other. The first
  argument is the number of nested calls of these two methods that the interpreter's
  recursion limit still allows (calls into the library are taken to fit): a call beyond
  it raises \<open>RecursionError\<close>, which, like every exception of the \<open>try\<close> body, the
  \<open>except Exception\<close> handler of \<open>calculate_pass_fail\<close> catches. An exception raised
  inside the handler leaves \<open>calculate_pass_fail\<close>. \<open>save\<close> discards the flag that
  \<open>calculate_pass_fail\<close> returns.
\<close>

fun calculate_pass_fail :: "nat \<Rightarrow> environment \<Rightarrow> result_state \<Rightarrow> bool outcome"
  and save :: "nat \<Rightarrow> environment \<Rightarrow> string list option \<Rightarrow> result_state \<Rightarrow> unit outcome" where
  "calculate_pass_fail 0 env st = Raises RecursionError st"
| "calculate_pass_fail (Suc d) env st =
     (let attempt =
        (case find_specification env (inst st) of
           Inl e \<Rightarrow> Raises e st
         | Inr None \<Rightarrow>
             (case save d env status_fields (set_status None st) of
                Raises e s \<Rightarrow> Raises e s
              | Returns u s \<Rightarrow> Returns False s)
         | Inr (Some specification) \<Rightarrow>
             (case validate_value specification (actual_value (inst st)) of
                Inl e \<Rightarrow> Raises e st
              | Inr (is_valid, error_message) \<Rightarrow>
                  (case save d env status_fields (set_status (Some is_valid) st) of
                     Raises e s \<Rightarrow> Raises e s
                   | Returns u s \<Rightarrow> Returns is_valid s)))
      in case attempt of
           Returns b s \<Rightarrow> Returns b s
         | Raises e s \<Rightarrow>
             (case save d env status_fields (set_status None s) of
                Raises e' s' \<Rightarrow> Raises e' s'
              | Returns u s' \<Rightarrow> Returns False s'))"
| "save 0 env update_fields st = Raises RecursionError st"
| "save (Suc d) env update_fields st =
     (if pass_fail_status (inst st) = None \<and> actual_value (inst st) \<noteq> [] then
        (let st1 = Model_save update_fields st in
         if test_request_id (inst st1) \<noteq> None \<and> parameter_id (inst st1) \<noteq> None then
           (case calculate_pass_fail d env st1 of
              Raises e s \<Rightarrow> Raises e s
            | Returns b s \<Rightarrow> Returns () s)
         else Returns () st1)
      else Returns () (Model_save update_fields st))"

text \<open>
  The results-entry step of \<open>pipeline_step\<close> for a result that already exists
  (\<open>get_or_create\<close> found it): the posted value is assigned, the result is saved, and
  \<open>calculate_pass_fail\<close> is called. Nothing but \<open>actual_value\<close> (and \<open>tested_by\<close>,
  not modelled) comes from the request.
\<close>

definition set_actual_value :: "string \<Rightarrow> result_state \<Rightarrow> result_state" where
  "set_actual_value a st = st\<lparr>inst := (inst st)\<lparr>actual_value := a\<rparr>\<rparr>"

definition enter_result :: "nat \<Rightarrow> environment \<Rightarrow> string \<Rightarrow> result_state \<Rightarrow> bool outcome" where
  "enter_result d env a st =
     (case save d env None (set_actual_value a st) of
        Raises e s \<Rightarrow> Raises e s
      | Returns u s \<Rightarrow> calculate_pass_fail d env s)"

text \<open>Two invocations in a row; an exception of the first ends the sequence.\<close>

definition calculate_twice :: "nat \<Rightarrow> environment \<Rightarrow> result_state \<Rightarrow> bool outcome" where
  "calculate_twice d env st =
     (case calculate_pass_fail d env st of
        Raises e s \<Rightarrow> Raises e s
      | Returns b s \<Rightarrow> calculate_pass_fail d env s)"

subsection \<open>Notions used to state the evaluator's properties\<close>

text \<open>
  What the evaluation determines for a result: the validator's flag when the lookup
  finds a specification and the validator returns, nothing when there is no
  specification or the lookup or the validator raises.
\<close>

definition verdict :: "environment \<Rightarrow> test_result \<Rightarrow> bool option" where
  "verdict env r =
     (case find_specification env r of
        Inl e \<Rightarrow> None
      | Inr None \<Rightarrow> None
      | Inr (Some specification) \<Rightarrow>
          (case validate_value specification (actual_value r) of
             Inl e \<Rightarrow> None
           | Inr (is_valid, error_message) \<Rightarrow> Some is_valid))"

text \<open>
  The results for which \<open>save\<close>, finding the status unset, calls
  \<open>calculate_pass_fail\<close> back.
\<close>

definition resaves :: "test_result \<Rightarrow> bool" where
  "resaves r = (actual_value r \<noteq> [] \<and> test_request_id r \<noteq> None \<and> parameter_id r \<noteq> None)"

text \<open>The state with a status assigned to the instance and written to the row.\<close>

definition stored :: "bool option \<Rightarrow> result_state \<Rightarrow> result_state" where
  "stored v st = Model_save status_fields (set_status v st)"

text \<open>Strictly below and strictly above a bound, for a decimal that is not a NaN.\<close>

definition strictly_below :: "decimal \<Rightarrow> number \<Rightarrow> bool" where
  "strictly_below v b =
     (case v of Finite x \<Rightarrow> number_value x < number_value b
              | Infinity s \<Rightarrow> s
              | NaN s g d \<Rightarrow> False)"

definition strictly_above :: "decimal \<Rightarrow> number \<Rightarrow> bool" where
  "strictly_above v b =
     (case v of Finite x \<Rightarrow> number_value b < number_value x
              | Infinity s \<Rightarrow> \<not> s
              | NaN s g d \<Rightarrow> False)"

definition is_NaN :: "decimal \<Rightarrow> bool" where
  "is_NaN v = (case v of NaN s g d \<Rightarrow> True | Finite x \<Rightarrow> False | Infinity s \<Rightarrow> False)"

definition out_of_bounds :: "product_specification \<Rightarrow> decimal \<Rightarrow> bool" where
  "out_of_bounds spec v =
     ((case min_value spec of None \<Rightarrow> False | Some mn \<Rightarrow> strictly_below v mn)
      \<or> (case max_value spec of None \<Rightarrow> False | Some mx \<Rightarrow> strictly_above v mx))"

text \<open>
  The boolean reading of a value as the specification words it: trimmed,
  case-insensitive membership in the set of truthy tokens.
\<close>

definition interpreted_true :: "string \<Rightarrow> bool" where
  "interpreted_true s = (py_lower (py_strip s) \<in> {''true'', ''yes'', ''1'', ''pass''})"

section \<open>Roles and views (apps/users, apps/testing/views.py)\<close>

record user =
  user_id :: nat
  role :: string

definition is_admin :: "user \<Rightarrow> bool" where
  "is_admin u = (role u = ''ADMIN'')"

definition is_controller :: "user \<Rightarrow> bool" where
  "is_controller u = (role u = ''CONTROLLER'')"

text \<open>
  A request as the views read it. \<open>request_user\<close> is \<open>None\<close> for an anonymous visitor,
  \<open>request_method\<close> is \<open>request.method\<close>, \<open>action\<close> the posted \<open>action\<close> field
  (\<open>None\<close> when it is not posted). Three inputs stand for parts of the step-2
  and step-3 handling that touch no field of the \<open>TestRequest\<close>: whether the parameter
  selection form validates, whether the session holds a parameter selection, and the
  exception with which the result-entry loop ends, if it raises.
\<close>

record http_request =
  request_user :: "user option"
  request_method :: string
  action :: "string option"
  parameters_valid :: bool
  session_has_params :: bool
  entry_error :: "py_error option"

datatype level = SUCCESS | WARNING | ERROR

datatype response =
    RedirectLogin
  | Http404
  | Http405
  | Http500
  | Allow
  | Render string
  | Redirect string "(level \<times> string) option"

text \<open>
  \<open>pipeline_step\<close> under \<open>@controller_required\<close>, applied to the row that
  \<open>test_id\<close> names. The result is the response and the row afterwards. The review form
  of step 4 is valid exactly when the action is one of its three choices. A step-2 POST
  whose form does not validate reaches the final \<open>render\<close> with \<open>specifications\<close>
  unassigned, an uncaught \<open>UnboundLocalError\<close>; the result-entry loop of step 3 runs
  in a transaction before the step is written, so an exception there leaves the row.
\<close>

definition review_choices :: "string list" where
  "review_choices = [''submit'', ''approve'', ''reject'']"

definition pipeline_step :: "http_request \<Rightarrow> nat \<Rightarrow> test_request \<Rightarrow> response \<times> test_request" where
  "pipeline_step request step test_request =
     (case request_user request of
        None \<Rightarrow> (RedirectLogin, test_request)
      | Some u \<Rightarrow>
          if \<not> (is_controller u \<or> is_admin u)
          then (Redirect ''dashboard'' (Some (ERROR, ''Controller access required.'')), test_request)
          else if \<not> is_active test_request then (Http404, test_request)
          else if controller_user_id test_request \<noteq> user_id u \<and> \<not> is_admin u
          then (Redirect ''testing:list''
                  (Some (ERROR, ''You do not have permission to access this test.'')), test_request)
          else if step = 2 then
            (if request_method request = ''POST'' then
               (if parameters_valid request
                then (Redirect ''testing:pipeline_step''
                        (Some (SUCCESS, ''Parameters selected. Proceed to step 3.'')),
                      test_request\<lparr>current_step := 2, status := ''In-Progress''\<rparr>)
                else (Http500, test_request))
             else (Render ''testing/pipeline_step_2.html'', test_request))
          else if step = 3 then
            (if \<not> session_has_params request
             then (Redirect ''testing:pipeline_step''
                     (Some (ERROR, ''Please select parameters first.'')), test_request)
             else if request_method request = ''POST'' then
               (case entry_error request of
                  Some e \<Rightarrow> (Http500, test_request)
                | None \<Rightarrow> (Redirect ''testing:pipeline_step''
                             (Some (SUCCESS, ''Results entered. Proceed to review.'')),
                           test_request\<lparr>current_step := 3\<rparr>))
             else (Render ''testing/pipeline_step_3.html'', test_request))
          else if step = 4 then
            (if request_method request = ''POST'' \<and> action request \<in> Some ` set review_choices then
               (if action request = Some ''submit''
                then (Redirect ''testing:detail''
                        (Some (SUCCESS, ''Test request submitted for review. Progress: 75%'')),
                      test_request\<lparr>current_step := 4, status := ''Submitted for Review''\<rparr>)
                else if action request = Some ''approve''
                then (Redirect ''testing:detail''
                        (Some (SUCCESS, ''Test request approved. Progress: 100%'')),
                      test_request\<lparr>current_step := 4, status := ''Approved''\<rparr>)
                else if action request = Some ''reject''
                then (Redirect ''testing:detail'' (Some (WARNING, ''Test request rejected.'')),
                      test_request\<lparr>status := ''Rejected''\<rparr>)
                else (Render ''testing/pipeline_step_4.html'', test_request))
             else (Render ''testing/pipeline_step_4.html'', test_request))
          else (Redirect ''testing:list'' (Some (ERROR, ''Invalid step.'')), test_request))"

text \<open>
  \<open>TestRequestDetailView\<close>: \<open>RoleRequiredMixin.dispatch\<close>, then, for a POST, \<open>post\<close>
  with its \<open>get_object\<close> on the queryset (active rows; for a non-admin, own rows only).
  The other methods read at most: GET and HEAD render the page, OPTIONS lists the
  methods, anything else is not allowed.
\<close>

definition detail_view :: "http_request \<Rightarrow> test_request \<Rightarrow> response \<times> test_request" where
  "detail_view request test_request =
     (case request_user request of
        None \<Rightarrow> (RedirectLogin, test_request)
      | Some u \<Rightarrow>
          if role u \<notin> set [''ADMIN'', ''CONTROLLER'']
          then (Redirect ''dashboard''
                  (Some (ERROR, ''You do not have permission to access this page.'')), test_request)
          else if request_method request = ''POST'' then
            (if \<not> (is_active test_request
                    \<and> (is_admin u \<or> controller_user_id test_request = user_id u))
             then (Http404, test_request)
             else if \<not> is_admin u
             then (Redirect ''testing:detail'' (Some (ERROR, ''Only admins can approve tests.'')),
                   test_request)
             else if status test_request = ''Submitted for Review'' then
               (if action request = Some ''approve''
                then (Redirect ''testing:detail''
                        (Some (SUCCESS, ''Test request approved. Progress: 100%'')),
                      test_request\<lparr>status := ''Approved''\<rparr>)
                else if action request = Some ''reject''
                then (Redirect ''testing:detail'' (Some (WARNING, ''Test request rejected.'')),
                      test_request\<lparr>status := ''Rejected''\<rparr>)
                else (Redirect ''testing:detail'' (Some (ERROR, ''Invalid action.'')), test_request))
             else (Redirect ''testing:detail'' None, test_request))
          else if request_method request \<in> set [''GET'', ''HEAD''] then
            (if \<not> (is_active test_request
                    \<and> (is_admin u \<or> controller_user_id test_request = user_id u))
             then (Http404, test_request)
             else (Render ''testing/test_detail.html'', test_request))
          else if request_method request = ''OPTIONS'' then (Allow, test_request)
          else (Http405, test_request))"

section \<open>Sample data\<close>

text \<open>
  A moisture specification for product 1 with bounds 10.0000 and 12.0000, a boolean
  specification with the standard value \<open>Negative\<close>, a request for product 1, and the
  tables with and without the moisture specification.
\<close>

definition moisture :: product_specification where
  "moisture = \<lparr>spec_product_id = 1, parameter = \<lparr>param_id = 1, data_type = ''Numeric''\<rparr>,
     min_value = Some (Number False 100000 (- 4)), max_value = Some (Number False 120000 (- 4)),
     standard_text_value = [], spec_is_active = True\<rparr>"

definition salmonella :: product_specification where
  "salmonella = \<lparr>spec_product_id = 1, parameter = \<lparr>param_id = 2, data_type = ''Boolean''\<rparr>,
     min_value = None, max_value = None,
     standard_text_value = ''Negative'', spec_is_active = True\<rparr>"

definition colour :: product_specification where
  "colour = \<lparr>spec_product_id = 1, parameter = \<lparr>param_id = 3, data_type = ''Colour''\<rparr>,
     min_value = None, max_value = None,
     standard_text_value = ''Yellow'', spec_is_active = True\<rparr>"

definition batch_001 :: test_request where
  "batch_001 = \<lparr>request_id = 1, controller_user_id = 7, product_id = 1,
     status = ''Pending'', current_step = 1, is_active = True\<rparr>"

definition lab :: environment where
  "lab = \<lparr>test_requests = [batch_001], specifications = [moisture]\<rparr>"

definition bare_lab :: environment where
  "bare_lab = \<lparr>test_requests = [batch_001], specifications = []\<rparr>"

definition reading :: "string \<Rightarrow> bool option \<Rightarrow> result_state" where
  "reading a v =
     \<lparr>inst = \<lparr>test_request_id = Some 1, parameter_id = Some 1, actual_value = a,
               pass_fail_status = v\<rparr>,
      row = \<lparr>test_request_id = Some 1, parameter_id = Some 1, actual_value = a,
              pass_fail_status = v\<rparr>\<rparr>"

definition owner_post :: "string \<Rightarrow> http_request" where
  "owner_post a = \<lparr>request_user = Some \<lparr>user_id = 7, role = ''CONTROLLER''\<rparr>,
     request_method = ''POST'', action = Some a, parameters_valid = False,
     session_has_params = False, entry_error = None\<rparr>"

section \<open>Properties of the pipeline state machine\<close>

lemma round_half_even_int [simp]: "round_half_even (of_int k) = k"
  by (simp add: round_half_even_def)

lemma binade_le:
  assumes "x \<noteq> 0"
  shows "2 powi (binade x) \<le> \<bar>x\<bar>"
proof -
  obtain p q where pq: "quotient_of \<bar>x\<bar> = (p, q)" by (cases "quotient_of \<bar>x\<bar>")
  then have q: "0 < q" and x: "\<bar>x\<bar> = of_int p / of_int q"
    by (auto dest: quotient_of_denom_pos quotient_of_div)
  have "0 < \<bar>x\<bar>" using assms by simp
  with x q have p: "0 < p" by (simp add: zero_less_divide_iff)
  show ?thesis
  proof (cases "2 powi (bitlen p - bitlen q) \<le> \<bar>x\<bar>")
    case True
    then show ?thesis by (simp add: binade_def pq)
  next
    case False
    have bp: "(2::int) ^ nat (bitlen p - 1) \<le> p" and bq: "q < 2 ^ nat (bitlen q)"
      using bitlen_bounds [OF p] bitlen_bounds [OF q] by simp_all
    have p1: "1 \<le> bitlen p" using p by (simp add: bitlen_alt_def)
    have "(2::rat) powi (bitlen p - 1) = of_int (2 ^ nat (bitlen p - 1))"
      using p1 by (simp add: power_int_def)
    also have "\<dots> \<le> of_int p" using bp by (simp only: of_int_le_iff)
    finally have a: "(2::rat) powi (bitlen p - 1) \<le> of_int p" .
    have "(of_int q :: rat) \<le> of_int (2 ^ nat (bitlen q))"
      using bq by (simp only: of_int_le_iff less_imp_le)
    also have "\<dots> = 2 powi (bitlen q)" using bitlen_nonneg [of q] by (simp add: power_int_def)
    finally have b: "(of_int q :: rat) \<le> 2 powi (bitlen q)" .
    have "(2::rat) powi (bitlen p - bitlen q - 1) = 2 powi (bitlen p - 1) / 2 powi (bitlen q)"
      using power_int_diff [of "2::rat" "bitlen p - 1" "bitlen q"] by (simp add: algebra_simps)
    also have "\<dots> \<le> of_int p / of_int q"
      using a b q p by (intro frac_le) simp_all
    finally have "(2::rat) powi (bitlen p - bitlen q - 1) \<le> \<bar>x\<bar>"
      by (simp only: x)
    moreover have "binade x = bitlen p - bitlen q - 1"
      using False by (simp add: binade_def pq)
    ultimately show ?thesis by simp
  qed
qed

text \<open>
  A number with a significand of fewer than 54 bits, an exponent within the subnormal
  range and a magnitude below the overflow threshold is a binary64 number: rounding
  leaves it.
\<close>

lemma to_binary64_exact:
  assumes x: "x = of_int m * 2 powi j" and m: "\<bar>m\<bar> < 2 ^ 53" and j: "- 1074 \<le> j"
    and big: "\<bar>x\<bar> < 2 ^ 1024"
  shows "to_binary64 x = Binary64 x"
proof (cases "x = 0")
  case True
  then show ?thesis by (simp add: to_binary64_def)
next
  case False
  define q where "q = max (binade x - 52) (- 1074)"
  have pos: "(0::rat) < 2 powi j" by (simp add: zero_less_power_int)
  have "2 powi (binade x) \<le> \<bar>x\<bar>" using False by (rule binade_le)
  also have "\<bar>x\<bar> = of_int \<bar>m\<bar> * 2 powi j"
    using pos by (simp add: x abs_mult)
  also have "\<dots> < of_int (2 ^ 53) * 2 powi j"
    using m pos by (intro mult_strict_right_mono) (simp_all only: of_int_less_iff)
  also have "\<dots> = 2 powi (53 + j)"
    by (simp add: power_int_add)
  finally have "binade x < 53 + j"
    using power_int_strict_increasing [of "53 + j" "binade x" "2::rat"]
    by (cases "binade x < 53 + j")
       (auto simp: not_less dest: power_int_increasing [of _ _ "2::rat"])
  then have qj: "q \<le> j" using j by (simp add: q_def)
  have "x / 2 powi q = of_int m * 2 powi (j - q)"
    by (simp add: x power_int_diff)
  also have "\<dots> = of_int (m * 2 ^ nat (j - q))"
    using qj by (simp add: power_int_def)
  finally have r: "round_half_even (x / 2 powi q) = m * 2 ^ nat (j - q)"
    by (simp only: round_half_even_int)
  have "of_int (m * 2 ^ nat (j - q)) * 2 powi q = of_int m * (2 powi (j - q) * 2 powi q)"
    using qj by (simp add: power_int_def mult.assoc)
  also have "\<dots> = x"
    by (simp add: x flip: power_int_add)
  finally have y: "of_int (round_half_even (x / 2 powi q)) * 2 powi q = x"
    by (simp only: r)
  show ?thesis
    using False big y by (simp add: to_binary64_def Let_def flip: q_def)
qed

lemma py_int_of_int: "py_int (Binary64 (of_int k)) = Inr k"
  by (simp add: py_int_def)

lemma quarter_times_hundred:
  assumes "\<bar>n\<bar> * 25 < 2 ^ 53"
  shows "(case int_true_divide n 4 of Inl e \<Rightarrow> Inl e | Inr x \<Rightarrow> py_int (float_mul x 100))
           = Inr (25 * n)"
proof -
  have n: "\<bar>n\<bar> < 2 ^ 53" and n25: "\<bar>25 * n\<bar> < 2 ^ 53" using assms by simp_all
  have r: "\<bar>of_int k :: rat\<bar> < 2 ^ 1024" if "\<bar>k\<bar> < 2 ^ 53" for k :: int
  proof -
    have "\<bar>of_int k :: rat\<bar> = of_int \<bar>k\<bar>" by simp
    also have "\<dots> < of_int (2 ^ 53)" using that by (simp only: of_int_less_iff)
    also have "\<dots> < 2 ^ 1024" by simp
    finally show ?thesis .
  qed
  have "\<bar>of_int n / 4 :: rat\<bar> \<le> \<bar>of_int n\<bar>" by simp
  then have big: "\<bar>of_int n / 4 :: rat\<bar> < 2 ^ 1024" using r [OF n] by simp
  have e: "(of_int n / 4 :: rat) = of_int n * 2 powi (- 2)"
    by (simp add: power_int_def power2_eq_square)
  have d: "to_binary64 (of_int n / 4) = Binary64 (of_int n / 4)"
    by (rule to_binary64_exact [OF e n _ big]) simp
  have e': "(of_int (25 * n) :: rat) = of_int (25 * n) * 2 powi 0"
    by simp
  have p: "to_binary64 (of_int (25 * n)) = Binary64 (of_int (25 * n))"
    by (rule to_binary64_exact [OF e' n25 _ r [OF n25]]) simp
  have "(of_int n / 4 :: rat) * 100 = of_int (25 * n)" by simp
  then have fm: "float_mul (of_int n / 4) 100 = Binary64 (of_int (25 * n))"
    using p by (simp only: float_mul_def)
  have dv: "int_true_divide n 4 = Inr (of_int n / 4)"
    using d by (simp add: int_true_divide_def)
  show ?thesis
    by (simp only: dv sum.case fm py_int_of_int)
qed

lemma floor_quarter: "\<lfloor>(of_int n / 4 * 100 :: rat)\<rfloor> = 25 * n"
proof -
  have "(of_int n / 4) * 100 = (of_int (25 * n) :: rat)" by simp
  then show ?thesis by (simp only: floor_of_int)
qed

text \<open>
  C1. \<open>advance_step\<close> returns false and leaves the request as it is when the status is
  Rejected or the step is 4 or more; otherwise it adds exactly one to the step, sets the
  status to Completed when the new step is 4 and to In-Progress otherwise, and returns true.
\<close>

theorem advance_step_spec:
  "advance_step r =
     (if status r = ''Rejected'' \<or> current_step r \<ge> 4 then (False, r)
      else (True, r\<lparr>current_step := current_step r + 1,
                     status := (if current_step r + 1 = 4 then ''Completed''
                                else ''In-Progress'')\<rparr>))"
  by (simp add: advance_step_def can_proceed_to_next_step_def Let_def)

theorem advance_step_spec_witness:
  "advance_step batch_001 = (True, batch_001\<lparr>current_step := 2, status := ''In-Progress''\<rparr>)
   \<and> advance_step (batch_001\<lparr>current_step := 3\<rparr>)
       = (True, batch_001\<lparr>current_step := 4, status := ''Completed''\<rparr>)
   \<and> advance_step (batch_001\<lparr>status := ''Rejected''\<rparr>)
       = (False, batch_001\<lparr>status := ''Rejected''\<rparr>)
   \<and> advance_step (batch_001\<lparr>current_step := 4\<rparr>) = (False, batch_001\<lparr>current_step := 4\<rparr>)"
  using advance_step_spec [of batch_001] advance_step_spec [of "batch_001\<lparr>current_step := 3\<rparr>"]
    advance_step_spec [of "batch_001\<lparr>status := ''Rejected''\<rparr>"]
    advance_step_spec [of "batch_001\<lparr>current_step := 4\<rparr>"]
  by (simp add: batch_001_def)

text \<open>
  C2. For every request whose step is in the range on which the float expression of
  the last branch is exact (25 times the step below 2 to the 53 in absolute value, which
  holds for every value of a 32-bit column and so for every step from 1 to 4),
  \<open>get_progress_percentage\<close> returns the value of the specification's progress table;
  in the last row of the table (not Approved, not Submitted for Review, step other than
  4) the value is 25 times the step, that is 25, 50 and 75 at steps 1, 2 and 3.
\<close>

theorem get_progress_percentage_spec:
  assumes "\<bar>current_step r\<bar> * 25 < 2 ^ 53"
  shows "get_progress_percentage r = Inr (spec_progress (status r) (current_step r))
   \<and> (status r \<noteq> ''Approved'' \<and> status r \<noteq> ''Submitted for Review'' \<and> current_step r \<noteq> 4
        \<longrightarrow> get_progress_percentage r = Inr (25 * current_step r))"
  unfolding get_progress_percentage_def spec_progress_def quarter_times_hundred [OF assms]
    floor_quarter
  by simp

theorem get_progress_percentage_spec_witness:
  "\<bar>current_step batch_001\<bar> * 25 < 2 ^ 53
   \<and> get_progress_percentage batch_001 = Inr 25
   \<and> get_progress_percentage (batch_001\<lparr>status := ''In-Progress'', current_step := 2\<rparr>) = Inr 50
   \<and> get_progress_percentage (batch_001\<lparr>status := ''In-Progress'', current_step := 3\<rparr>) = Inr 75
   \<and> get_progress_percentage (batch_001\<lparr>status := ''Submitted for Review'', current_step := 4\<rparr>)
       = Inr 75
   \<and> get_progress_percentage (batch_001\<lparr>status := ''Completed'', current_step := 4\<rparr>) = Inr 100
   \<and> get_progress_percentage (batch_001\<lparr>status := ''Approved'', current_step := 2\<rparr>) = Inr 100"
proof -
  have b: "\<bar>current_step (batch_001\<lparr>status := st, current_step := n\<rparr>)\<bar> * 25 < 2 ^ 53"
    if "\<bar>n\<bar> \<le> 4" for st n
    using that by simp
  have b1: "\<bar>current_step batch_001\<bar> * 25 < 2 ^ 53" by (simp add: batch_001_def)
  show ?thesis
    using get_progress_percentage_spec [OF b1]
      get_progress_percentage_spec [OF b [of 2 "''In-Progress''"]]
      get_progress_percentage_spec [OF b [of 3 "''In-Progress''"]]
      get_progress_percentage_spec [OF b [of 4 "''Submitted for Review''"]]
      get_progress_percentage_spec [OF b [of 4 "''Completed''"]]
      get_progress_percentage_spec [OF b [of 2 "''Approved''"]] b1
    by (simp add: batch_001_def spec_progress_def)
qed

section \<open>Properties of the specification validator\<close>

lemmas parse_defs = Decimal_def py_strip_def py_isspace_def whitespace_def py_lower_def
  lower_char_def uppercase_def lowercase_def split_sign_def parse_finite_def parse_nan_def
  parse_exponent_def is_digit_def nat_of_digits_def digit_value_def exponent_in_range_def

lemmas str_defs = number_str_def signed_int_str_def digit_char_def

lemma dec_lt_not_NaN:
  "\<not> is_NaN v \<Longrightarrow> dec_lt v (Finite b) = Inr (strictly_below v b)"
  by (cases v) (simp_all add: is_NaN_def strictly_below_def)

lemma dec_gt_not_NaN:
  "\<not> is_NaN v \<Longrightarrow> dec_gt v (Finite b) = Inr (strictly_above v b)"
  by (cases v) (simp_all add: is_NaN_def strictly_above_def dec_gt_def)

lemma numeric_try_parsed:
  assumes "Decimal a = Inr v" "\<not> is_NaN v"
  shows "\<exists>msg. numeric_try spec a = Inr (\<not> out_of_bounds spec v, msg)"
  using assms
  by (cases "min_value spec"; cases "max_value spec")
     (simp_all add: numeric_try_def check_maximum_def out_of_bounds_def dec_lt_not_NaN
        dec_gt_not_NaN)

lemma numeric_try_unparsed:
  "Decimal a = Inl e \<Longrightarrow> numeric_try spec a = Inl e"
  by (simp add: numeric_try_def)

lemma Decimal_error: "Decimal a = Inl e \<Longrightarrow> e = InvalidOperation"
  by (auto simp: Decimal_def split: prod.splits option.splits if_splits)

lemma validate_value_unparsed:
  assumes "data_type (parameter spec) = ''Numeric''" "Decimal a = Inl e"
  shows "validate_value spec a = Inl InvalidOperation"
  using assms Decimal_error [OF assms(2)]
  by (simp add: validate_value_def numeric_try_unparsed)

text \<open>
  C4. A Numeric specification and a value that does not parse: the claim asks for a
  normal return with a failed flag and the "Invalid numeric value" message. The
  conversion raises \<open>InvalidOperation\<close>, which the handler does not catch, so
  \<open>validate_value\<close> raises it.
\<close>

theorem validate_value_unparsed_raises:
  "Decimal ''abc'' = Inl InvalidOperation
   \<and> validate_value moisture ''abc'' = Inl InvalidOperation"
  by (simp add: validate_value_def numeric_try_def check_maximum_def moisture_def parse_defs)

text \<open>
  C5. A Numeric specification with a minimum and the value \<open>NaN\<close>: the claim asks
  for a pass or a fail, decided by the bounds, for every value that parses as a decimal.
  \<open>NaN\<close> parses, the comparison with the minimum raises \<open>InvalidOperation\<close>, and the
  handler, which catches \<open>ValueError\<close> and \<open>TypeError\<close> only, lets it leave
  \<open>validate_value\<close>.
\<close>

theorem validate_value_NaN_raises:
  "Decimal ''NaN'' = Inr (NaN False False 0)
   \<and> validate_value moisture ''NaN'' = Inl InvalidOperation"
  by (simp add: validate_value_def numeric_try_def check_maximum_def moisture_def parse_defs)

text \<open>
  On every value that parses as a decimal other than a NaN the Numeric branch returns,
  and it fails exactly when the minimum is set and the value is strictly below it or the
  maximum is set and the value is strictly above it.
\<close>

lemma validate_value_numeric_bounds:
  assumes "data_type (parameter spec) = ''Numeric''" "Decimal a = Inr v" "\<not> is_NaN v"
  shows "\<exists>msg. validate_value spec a = Inr (\<not> out_of_bounds spec v, msg)"
proof -
  obtain msg where "numeric_try spec a = Inr (\<not> out_of_bounds spec v, msg)"
    using numeric_try_parsed [OF assms(2,3)] by blast
  then show ?thesis using assms(1) by (simp add: validate_value_def)
qed

lemma validate_value_moisture_bounds:
  "validate_value moisture ''12'' = Inr (True, None)"
  "validate_value moisture ''10.0000'' = Inr (True, None)"
  "validate_value moisture ''9.9999''
     = Inr (False, Some ''Value 9.9999 is below minimum 10.0000'')"
  "validate_value moisture ''12.0001''
     = Inr (False, Some ''Value 12.0001 is above maximum 12.0000'')"
  "validate_value (moisture\<lparr>max_value := None\<rparr>) ''Infinity'' = Inr (True, None)"
  by (simp_all add: validate_value_def numeric_try_def check_maximum_def moisture_def
      parse_defs str_defs number_value_def dec_gt_def)

text \<open>
  C6. For a Boolean specification and ASCII text on both sides: with no standard value
  every value passes; with a standard value, the standard and the actual value are read
  through the truthy tokens (trimmed, case ignored) and the value fails exactly when the
  two readings differ.
\<close>

theorem validate_value_boolean:
  assumes "data_type (parameter spec) = ''Boolean''"
    and "is_ascii (standard_text_value spec)" and "is_ascii a"
  shows "validate_value spec a =
     (if standard_text_value spec = [] then Inr (True, None)
      else if interpreted_true (standard_text_value spec) = interpreted_true a
      then Inr (True, None)
      else Inr (False, Some ''Boolean value mismatch''))"
  using assms(1)
  by (auto simp: validate_value_def Let_def interpreted_true_def truthy_tokens_def)

theorem validate_value_boolean_witness:
  "data_type (parameter salmonella) = ''Boolean''
   \<and> is_ascii (standard_text_value salmonella)
   \<and> is_ascii ''Negative'' \<and> is_ascii ''Pass'' \<and> is_ascii '' YES ''
   \<and> validate_value salmonella ''Negative'' = Inr (True, None)
   \<and> validate_value salmonella ''Pass'' = Inr (False, Some ''Boolean value mismatch'')
   \<and> validate_value salmonella '' YES '' = Inr (False, Some ''Boolean value mismatch'')"
proof -
  have h: "data_type (parameter salmonella) = ''Boolean''" by (simp add: salmonella_def)
  have s: "standard_text_value salmonella = ''Negative''" by (simp add: salmonella_def)
  have a: "is_ascii (standard_text_value salmonella)" "is_ascii ''Negative''"
    "is_ascii ''Pass''" "is_ascii '' YES ''"
    by (simp_all add: s is_ascii_def)
  show ?thesis
    using validate_value_boolean [OF h a(1) a(2)] validate_value_boolean [OF h a(1) a(3)]
      validate_value_boolean [OF h a(1) a(4)] h a
    by (simp add: s interpreted_true_def py_strip_def py_isspace_def whitespace_def
        py_lower_def lower_char_def uppercase_def lowercase_def)
qed

text \<open>
  C10. Whenever \<open>validate_value\<close> returns, the message is absent exactly when the flag
  is true, and a message that is present is not empty; for a data type other than
  Numeric, Text and Boolean it returns true with no message.
\<close>

theorem validate_value_message:
  "(validate_value spec a = Inr (passed, msg) \<longrightarrow> ((msg = None) = passed) \<and> msg \<noteq> Some [])
   \<and> (data_type (parameter spec) \<notin> {''Numeric'', ''Text'', ''Boolean''}
        \<longrightarrow> validate_value spec a = Inr (True, None))"
proof (rule conjI; rule impI)
  assume r: "validate_value spec a = Inr (passed, msg)"
  show "((msg = None) = passed) \<and> msg \<noteq> Some []"
  proof (cases "data_type (parameter spec) = ''Numeric''")
    case True
    show ?thesis
    proof (cases "numeric_try spec a")
      case (Inl e)
      with r True show ?thesis
        by (auto simp: validate_value_def split: if_splits)
    next
      case (Inr res)
      with r True have "numeric_try spec a = Inr (passed, msg)"
        by (simp add: validate_value_def)
      then show ?thesis
        by (auto simp: numeric_try_def check_maximum_def
            split: sum.splits option.splits if_splits)
    qed
  next
    case False
    with r show ?thesis
      by (auto simp: validate_value_def Let_def split: if_splits)
  qed
next
  assume "data_type (parameter spec) \<notin> {''Numeric'', ''Text'', ''Boolean''}"
  then show "validate_value spec a = Inr (True, None)"
    by (simp add: validate_value_def)
qed

theorem validate_value_message_witness:
  "validate_value moisture ''9.5'' = Inr (False, Some ''Value 9.5 is below minimum 10.0000'')
   \<and> validate_value moisture ''11.0'' = Inr (True, None)
   \<and> data_type (parameter colour) \<notin> {''Numeric'', ''Text'', ''Boolean''}
   \<and> validate_value colour ''Green'' = Inr (True, None)"
proof -
  have v1: "validate_value moisture ''9.5'' = Inr (False, Some ''Value 9.5 is below minimum 10.0000'')"
    by (simp add: validate_value_def numeric_try_def check_maximum_def moisture_def
        parse_defs str_defs number_value_def dec_gt_def)
  have v2: "validate_value moisture ''11.0'' = Inr (True, None)"
    by (simp add: validate_value_def numeric_try_def check_maximum_def moisture_def
        parse_defs number_value_def dec_gt_def)
  have h: "data_type (parameter colour) \<notin> {''Numeric'', ''Text'', ''Boolean''}"
    by (simp add: colour_def)
  show ?thesis
    using validate_value_message [of moisture "''9.5''" False
        "Some ''Value 9.5 is below minimum 10.0000''"]
      validate_value_message [of colour "''Green''"] v1 v2 h
    by simp
qed

section \<open>Properties of the result evaluator\<close>

lemma find_specification_status [simp]:
  "find_specification env (r\<lparr>pass_fail_status := v\<rparr>) = find_specification env r"
  by (simp add: find_specification_def split: option.splits)

lemma verdict_status [simp]: "verdict env (r\<lparr>pass_fail_status := v\<rparr>) = verdict env r"
  by (simp add: verdict_def split: option.splits sum.splits)

lemma resaves_status [simp]: "resaves (r\<lparr>pass_fail_status := v\<rparr>) = resaves r"
  by (simp add: resaves_def)

lemma inst_stored [simp]: "inst (stored v st) = (inst st)\<lparr>pass_fail_status := v\<rparr>"
  by (simp add: stored_def Model_save_def set_status_def)

lemma row_stored [simp]: "row (stored v st) = (row st)\<lparr>pass_fail_status := v\<rparr>"
  by (simp add: stored_def Model_save_def set_status_def status_fields_def written_def)

lemma stored_stored [simp]: "stored v (stored w st) = stored v st"
  by (simp add: stored_def Model_save_def set_status_def status_fields_def written_def)

declare calculate_pass_fail.simps(2) [simp del] save.simps(2) [simp del]

lemma inst_Model_save [simp]: "inst (Model_save uf st) = inst st"
  by (simp add: Model_save_def)

lemma settled:
  assumes "pass_fail_status (inst S) = None" "pass_fail_status (row S) = None"
  shows "set_status None S = S" "Model_save status_fields S = S"
  using assms by (simp_all add: set_status_def Model_save_def status_fields_def written_def)

lemma verdict_None_cases:
  assumes "verdict env r = None"
  obtains (lookup) e where "find_specification env r = Inl e"
  | (missing) "find_specification env r = Inr None"
  | (invalid) sp e where "find_specification env r = Inr (Some sp)"
      "validate_value sp (actual_value r) = Inl e"
  using assms by (auto simp: verdict_def split: sum.splits option.splits prod.splits)

lemma verdict_Some_cases:
  assumes "verdict env r = Some v"
  obtains sp m where "find_specification env r = Inr (Some sp)"
      "validate_value sp (actual_value r) = Inr (v, m)"
  using assms by (auto simp: verdict_def split: sum.splits option.splits prod.splits)

lemma inst_set_status [simp]: "inst (set_status v st) = (inst st)\<lparr>pass_fail_status := v\<rparr>"
  by (simp add: set_status_def)

lemma settled_loops:
  assumes "verdict env (inst S) = None" "resaves (inst S)"
    "pass_fail_status (inst S) = None" "pass_fail_status (row S) = None"
  shows "calculate_pass_fail d env S = Raises RecursionError S
         \<and> save d env status_fields S = Raises RecursionError S"
proof (induction d)
  case 0
  show ?case by simp
next
  case (Suc d)
  have s1: "set_status None S = S" and s2: "Model_save status_fields S = S"
    using assms(3,4) by (rule settled)+
  have sv: "save d env status_fields S = Raises RecursionError S" using Suc by simp
  have c: "calculate_pass_fail d env S = Raises RecursionError S" using Suc by simp
  have "calculate_pass_fail (Suc d) env S = Raises RecursionError S"
    using assms(1)
    by (cases rule: verdict_None_cases) (simp_all add: calculate_pass_fail.simps(2) s1 sv)
  moreover have "save (Suc d) env status_fields S = Raises RecursionError S"
    using assms(2,3) c by (simp add: save.simps(2) s2 resaves_def)
  ultimately show ?case by simp
qed

lemma save_set:
  "save (Suc d) env uf (set_status (Some v) st) = Returns () (Model_save uf (set_status (Some v) st))"
  by (simp add: save.simps(2))

lemma save_unset_quiet:
  assumes "\<not> resaves (inst st)"
  shows "save (Suc d) env status_fields (set_status None st) = Returns () (stored None st)"
  using assms by (auto simp: save.simps(2) Let_def resaves_def stored_def)

lemma set_status_stored [simp]: "set_status None (stored None st) = stored None st"
  by (simp add: stored_def set_status_def Model_save_def)

lemma stored_None_loops:
  assumes "verdict env (inst st) = None" "resaves (inst st)"
  shows "save d env status_fields (stored None st) = Raises RecursionError (stored None st)"
    and "calculate_pass_fail d env (stored None st) = Raises RecursionError (stored None st)"
  using settled_loops [of env "stored None st" d] assms by simp_all

lemma save_unset_loops:
  assumes "verdict env (inst st) = None" "resaves (inst st)"
  shows "save (Suc d) env status_fields (set_status None st) = Raises RecursionError (stored None st)"
proof -
  have "Model_save status_fields (set_status None st) = stored None st"
    by (simp add: stored_def)
  then show ?thesis
    using assms(2) stored_None_loops(2) [OF assms, of d]
    by (simp add: save.simps(2) Let_def resaves_def)
qed

lemma calculate_pass_fail_deep:
  "calculate_pass_fail (Suc (Suc d)) env st =
     (case verdict env (inst st) of
        Some v \<Rightarrow> Returns v (stored (Some v) st)
      | None \<Rightarrow> if resaves (inst st) then Raises RecursionError (stored None st)
                else Returns False (stored None st))"
proof (cases "verdict env (inst st)")
  case (Some v)
  then have "calculate_pass_fail (Suc (Suc d)) env st = Returns v (stored (Some v) st)"
    by (cases rule: verdict_Some_cases)
       (simp add: calculate_pass_fail.simps(2) save_set stored_def)
  then show ?thesis using Some by simp
next
  case None
  show ?thesis
  proof (cases "resaves (inst st)")
    case True
    have "calculate_pass_fail (Suc (Suc d)) env st = Raises RecursionError (stored None st)"
      using None
      by (cases rule: verdict_None_cases)
         (simp_all add: calculate_pass_fail.simps(2) save_unset_loops [OF None True]
            stored_None_loops(1) [OF None True])
    then show ?thesis using None True by simp
  next
    case False
    have "calculate_pass_fail (Suc (Suc d)) env st = Returns False (stored None st)"
      using None
      by (cases rule: verdict_None_cases)
         (simp_all add: calculate_pass_fail.simps(2) save_unset_quiet [OF False])
    then show ?thesis using None False by simp
  qed
qed

lemma calculate_pass_fail_ge2:
  assumes "2 \<le> d"
  shows "calculate_pass_fail d env st =
     (case verdict env (inst st) of
        Some v \<Rightarrow> Returns v (stored (Some v) st)
      | None \<Rightarrow> if resaves (inst st) then Raises RecursionError (stored None st)
                else Returns False (stored None st))"
proof -
  from assms have "d = Suc (Suc (d - 2))" by simp
  then show ?thesis using calculate_pass_fail_deep [of "d - 2" env st] by simp
qed

lemma calculate_pass_fail_shallow:
  "\<exists>s. calculate_pass_fail (Suc 0) env st = Raises RecursionError s"
proof (cases "verdict env (inst st)")
  case (Some v)
  then show ?thesis
    by (cases rule: verdict_Some_cases) (simp add: calculate_pass_fail.simps(2))
next
  case None
  then show ?thesis
    by (cases rule: verdict_None_cases) (simp_all add: calculate_pass_fail.simps(2))
qed

lemma save_status_set:
  assumes "1 \<le> d" "pass_fail_status (inst st) \<noteq> None"
  shows "save d env uf st = Returns () (Model_save uf st)"
proof -
  from assms(1) have "d = Suc (d - 1)" by simp
  then have "save d env uf st = save (Suc (d - 1)) env uf st" by simp
  then show ?thesis using assms(2) by (simp add: save.simps(2))
qed

lemma save_ge3:
  assumes "3 \<le> d"
  shows "save d env uf st =
     (if pass_fail_status (inst st) = None \<and> resaves (inst st) then
        (case verdict env (inst st) of
           Some v \<Rightarrow> Returns () (stored (Some v) (Model_save uf st))
         | None \<Rightarrow> Raises RecursionError (stored None (Model_save uf st)))
      else Returns () (Model_save uf st))"
proof -
  from assms obtain k where d: "d = Suc k" and k: "2 \<le> k"
    by (cases d) simp_all
  show ?thesis
    unfolding d
    by (auto simp: save.simps(2) Let_def resaves_def calculate_pass_fail_ge2 [OF k]
        split: option.splits)
qed

lemma stored_reading [simp]: "stored v (reading a w) = reading a v"
  by (simp add: stored_def Model_save_def set_status_def status_fields_def written_def
      reading_def)

lemma reading_fields [simp]:
  "actual_value (inst (reading a w)) = a"
  "pass_fail_status (inst (reading a w)) = w"
  by (simp_all add: reading_def)

lemma resaves_reading [simp]: "resaves (inst (reading a w)) = (a \<noteq> [])"
  by (simp add: resaves_def reading_def)

lemma find_specification_lab:
  "find_specification lab (inst (reading a w)) = Inr (Some moisture)"
  "find_specification bare_lab (inst (reading a w)) = Inr None"
  by (simp_all add: find_specification_def lab_def bare_lab_def batch_001_def moisture_def
      reading_def)

lemma verdict_bare_lab [simp]: "verdict bare_lab (inst (reading a w)) = None"
  by (simp add: verdict_def find_specification_lab)

lemma validate_moisture:
  "validate_value moisture ''abc'' = Inl InvalidOperation"
  "validate_value moisture ''11.0'' = Inr (True, None)"
  "validate_value moisture ''15.0'' = Inr (False, Some ''Value 15.0 is above maximum 12.0000'')"
  by (simp_all add: validate_value_def numeric_try_def check_maximum_def moisture_def
      parse_defs str_defs number_value_def dec_gt_def)

lemma verdict_lab:
  "verdict lab (inst (reading ''abc'' w)) = None"
  "verdict lab (inst (reading ''11.0'' w)) = Some True"
  "verdict lab (inst (reading ''15.0'' w)) = Some False"
  by (simp_all add: verdict_def find_specification_lab validate_moisture)

text \<open>
  C3. A result with a value, for a product that has no specification for the
  parameter: the claim asks for a normal return of false with the status stored as
  unknown. \<open>calculate_pass_fail\<close> stores the unknown status through \<open>save\<close>, which
  finds the status unset and calls \<open>calculate_pass_fail\<close> again, and so on until the
  interpreter's limit; the handler's own \<open>save\<close> then fails the same way, and the call
  raises \<open>RecursionError\<close>. The same happens when the validator raises on the value.
\<close>

theorem calculate_pass_fail_no_specification_raises:
  "find_specification bare_lab (inst (reading ''11.0'' None)) = Inr None
   \<and> calculate_pass_fail 1000 bare_lab (reading ''11.0'' None)
       = Raises RecursionError (reading ''11.0'' None)
   \<and> validate_value moisture ''abc'' = Inl InvalidOperation
   \<and> calculate_pass_fail 1000 lab (reading ''abc'' None)
       = Raises RecursionError (reading ''abc'' None)"
  by (simp add: calculate_pass_fail_ge2 find_specification_lab validate_moisture verdict_lab)

text \<open>
  C7. Invoking \<open>calculate_pass_fail\<close> twice on a result gives the outcome of a single
  invocation: the same returned flag and the same state, instance and row.
\<close>

theorem calculate_pass_fail_idempotent:
  "calculate_twice d env st = calculate_pass_fail d env st"
proof -
  consider "d = 0" | "d = Suc 0" | "2 \<le> d" by arith
  then show ?thesis
  proof cases
    case 1
    then show ?thesis by (simp add: calculate_twice_def)
  next
    case 2
    obtain s where "calculate_pass_fail (Suc 0) env st = Raises RecursionError s"
      using calculate_pass_fail_shallow by blast
    with 2 show ?thesis by (simp add: calculate_twice_def)
  next
    case 3
    show ?thesis
      by (cases "verdict env (inst st)")
         (simp_all add: calculate_twice_def calculate_pass_fail_ge2 [OF 3])
  qed
qed

theorem calculate_pass_fail_idempotent_witness:
  "calculate_pass_fail 1000 lab (reading ''11.0'' None) = Returns True (reading ''11.0'' (Some True))
   \<and> calculate_twice 1000 lab (reading ''11.0'' None) = Returns True (reading ''11.0'' (Some True))"
proof -
  have "calculate_pass_fail 1000 lab (reading ''11.0'' None)
          = Returns True (reading ''11.0'' (Some True))"
    by (simp add: calculate_pass_fail_ge2 verdict_lab)
  then show ?thesis
    using calculate_pass_fail_idempotent [of 1000 lab "reading ''11.0'' None"] by simp
qed

lemma set_actual_value_fields [simp]:
  "pass_fail_status (inst (set_actual_value a st)) = pass_fail_status (inst st)"
  "actual_value (inst (set_actual_value a st)) = a"
  by (simp_all add: set_actual_value_def)

lemma row_Model_save_all [simp]: "row (Model_save None st) = inst st"
  by (simp add: Model_save_def written_def)

lemma set_actual_value_reading [simp]:
  "Model_save None (set_actual_value a (reading b w)) = reading a w"
  by (simp add: Model_save_def written_def set_actual_value_def reading_def)

lemma enter_result_ge3:
  assumes "3 \<le> d" "verdict env (inst (set_actual_value a st)) = Some v"
  shows "enter_result d env a st
           = Returns v (stored (Some v) (Model_save None (set_actual_value a st)))"
proof -
  from assms(1) have d2: "2 \<le> d" by simp
  show ?thesis
    using assms(2)
    by (simp add: enter_result_def save_ge3 [OF assms(1)] calculate_pass_fail_ge2 [OF d2])
qed

text \<open>
  C9, as the claim states it, fails on \<open>save\<close>: a result that passed at 11.0 has its
  value changed to 15.0, which the specification fails, and is saved; the stored status
  is still the pass.
\<close>

theorem save_keeps_status_counterexample:
  "save 1000 lab None (set_actual_value ''15.0'' (reading ''11.0'' (Some True)))
     = Returns () (reading ''15.0'' (Some True))
   \<and> validate_value moisture ''15.0''
     = Inr (False, Some ''Value 15.0 is above maximum 12.0000'')"
  by (simp add: save_status_set validate_moisture)

text \<open>
  C9, amended. The results-entry step takes only the value from the request and then
  calls \<open>calculate_pass_fail\<close>: when the specification is found and the validator
  returns on the new value, the step stores the validator's flag, whatever the status
  was before. \<open>save\<close> alone recomputes the status only when it is unset (and the value
  is not empty); when a status is set, saving a changed value stores the new value and
  leaves the status as it was.
\<close>

theorem pass_fail_status_derived:
  assumes "3 \<le> d"
  shows "(verdict env (inst (set_actual_value a st)) = Some v \<longrightarrow>
            (\<exists>s. enter_result d env a st = Returns v s
                 \<and> actual_value (row s) = a
                 \<and> pass_fail_status (row s) = Some v
                 \<and> pass_fail_status (inst s) = Some v))
       \<and> (pass_fail_status (inst st) = None \<and> resaves (inst (set_actual_value a st))
            \<and> verdict env (inst (set_actual_value a st)) = Some v \<longrightarrow>
            (\<exists>s. save d env None (set_actual_value a st) = Returns () s
                 \<and> actual_value (row s) = a
                 \<and> pass_fail_status (row s) = Some v))
       \<and> (pass_fail_status (inst st) = Some b \<longrightarrow>
            (\<exists>s. save d env None (set_actual_value a st) = Returns () s
                 \<and> actual_value (row s) = a
                 \<and> pass_fail_status (row s) = Some b
                 \<and> pass_fail_status (inst s) = Some b))"
proof (intro conjI impI)
  assume "verdict env (inst (set_actual_value a st)) = Some v"
  then show "\<exists>s. enter_result d env a st = Returns v s
                 \<and> actual_value (row s) = a
                 \<and> pass_fail_status (row s) = Some v
                 \<and> pass_fail_status (inst s) = Some v"
    by (simp add: enter_result_ge3 [OF assms])
next
  assume "pass_fail_status (inst st) = None \<and> resaves (inst (set_actual_value a st))
            \<and> verdict env (inst (set_actual_value a st)) = Some v"
  then show "\<exists>s. save d env None (set_actual_value a st) = Returns () s
                 \<and> actual_value (row s) = a
                 \<and> pass_fail_status (row s) = Some v"
    by (simp add: save_ge3 [OF assms])
next
  assume "pass_fail_status (inst st) = Some b"
  then show "\<exists>s. save d env None (set_actual_value a st) = Returns () s
                 \<and> actual_value (row s) = a
                 \<and> pass_fail_status (row s) = Some b
                 \<and> pass_fail_status (inst s) = Some b"
    by (simp add: save_ge3 [OF assms])
qed

theorem pass_fail_status_derived_witness:
  "(3::nat) \<le> 1000
   \<and> verdict lab (inst (set_actual_value ''15.0'' (reading ''11.0'' (Some True)))) = Some False
   \<and> enter_result 1000 lab ''15.0'' (reading ''11.0'' (Some True))
       = Returns False (reading ''15.0'' (Some False))
   \<and> verdict lab (inst (set_actual_value ''11.0'' (reading [] None))) = Some True
   \<and> save 1000 lab None (set_actual_value ''11.0'' (reading [] None))
       = Returns () (reading ''11.0'' (Some True))"
proof -
  have d: "(3::nat) \<le> 1000" by simp
  have i: "inst (set_actual_value a (reading c w)) = inst (reading a w)" for a c w
    by (simp add: set_actual_value_def reading_def)
  have v: "verdict lab (inst (set_actual_value ''15.0'' (reading ''11.0'' (Some True)))) = Some False"
    "verdict lab (inst (set_actual_value ''11.0'' (reading [] None))) = Some True"
    by (simp_all add: i verdict_lab)
  have e: "enter_result 1000 lab ''15.0'' (reading ''11.0'' (Some True))
             = Returns False (reading ''15.0'' (Some False))"
    by (simp add: enter_result_ge3 [OF d v(1)])
  have s: "save 1000 lab None (set_actual_value ''11.0'' (reading [] None))
             = Returns () (reading ''11.0'' (Some True))"
    by (simp add: save_ge3 [OF d] i verdict_lab)
  show ?thesis
    using pass_fail_status_derived [OF d, of lab "''15.0''" "reading ''11.0'' (Some True)" False]
      d v e s
    by simp
qed

section \<open>Who can approve or reject\<close>

lemma advance_step_status:
  "status (snd (advance_step r)) \<in> {''Approved'', ''Rejected''}
   \<Longrightarrow> status (snd (advance_step r)) = status r"
  by (auto simp: advance_step_def Let_def split: if_splits)

lemma detail_view_status:
  assumes "status (snd (detail_view request r)) \<in> {''Approved'', ''Rejected''}"
    "status (snd (detail_view request r)) \<noteq> status r"
  shows "\<exists>u. request_user request = Some u \<and> is_admin u \<and> request_method request = ''POST''
           \<and> is_active r \<and> status r = ''Submitted for Review''
           \<and> action request = Some (if status (snd (detail_view request r)) = ''Approved''
                                     then ''approve'' else ''reject'')"
proof (cases "request_user request")
  case None
  with assms show ?thesis by (simp add: detail_view_def)
next
  case (Some u)
  with assms show ?thesis
    by (simp add: detail_view_def split: if_splits)
qed

lemma pipeline_step_status:
  assumes "status (snd (pipeline_step request step r)) \<in> {''Approved'', ''Rejected''}"
    "status (snd (pipeline_step request step r)) \<noteq> status r"
  shows "\<exists>u. request_user request = Some u \<and> step = 4 \<and> request_method request = ''POST''
           \<and> is_active r
           \<and> (is_admin u \<or> (is_controller u \<and> controller_user_id r = user_id u))
           \<and> action request = Some (if status (snd (pipeline_step request step r)) = ''Approved''
                                     then ''approve'' else ''reject'')"
proof (cases "request_user request")
  case None
  with assms show ?thesis by (simp add: pipeline_step_def)
next
  case (Some u)
  with assms show ?thesis
    by (simp add: pipeline_step_def split: if_splits option.splits)
qed

lemma detail_view_non_admin:
  assumes "request_user request = Some u" "\<not> is_admin u" "request_method request = ''POST''"
  shows "detail_view request r =
     (if role u \<notin> set [''ADMIN'', ''CONTROLLER'']
      then Redirect ''dashboard'' (Some (ERROR, ''You do not have permission to access this page.''))
      else if is_active r \<and> controller_user_id r = user_id u
      then Redirect ''testing:detail'' (Some (ERROR, ''Only admins can approve tests.''))
      else Http404, r)"
  using assms by (simp add: detail_view_def)

lemma pipeline_step_stranger:
  assumes "request_user request = Some u" "\<not> is_admin u" "controller_user_id r \<noteq> user_id u"
  shows "pipeline_step request step r =
     (if \<not> is_controller u
      then Redirect ''dashboard'' (Some (ERROR, ''Controller access required.''))
      else if \<not> is_active r then Http404
      else Redirect ''testing:list''
             (Some (ERROR, ''You do not have permission to access this test.'')), r)"
  using assms by (simp add: pipeline_step_def)

text \<open>
  C8. The owning controller, who is not an admin, posts the action \<open>approve\<close> (or
  \<open>reject\<close>) to step 4 of the pipeline view for a request that is still Pending at
  step 1: the claim asks for a permission error and no change of state, as the detail
  view answers the same user (\<open>Only admins can approve tests.\<close>). The pipeline view
  sets the status to Approved (or Rejected) and answers with a success (or warning)
  message.
\<close>

theorem pipeline_step_owner_approves:
  "\<not> is_admin \<lparr>user_id = 7, role = ''CONTROLLER''\<rparr>
   \<and> controller_user_id batch_001 = 7
   \<and> status batch_001 = ''Pending''
   \<and> pipeline_step (owner_post ''approve'') 4 batch_001
       = (Redirect ''testing:detail'' (Some (SUCCESS, ''Test request approved. Progress: 100%'')),
          batch_001\<lparr>current_step := 4, status := ''Approved''\<rparr>)
   \<and> pipeline_step (owner_post ''reject'') 4 batch_001
       = (Redirect ''testing:detail'' (Some (WARNING, ''Test request rejected.'')),
          batch_001\<lparr>status := ''Rejected''\<rparr>)
   \<and> detail_view (owner_post ''approve'') batch_001
       = (Redirect ''testing:detail'' (Some (ERROR, ''Only admins can approve tests.'')),
          batch_001)"
  by (simp add: pipeline_step_def detail_view_def owner_post_def batch_001_def is_admin_def
      is_controller_def review_choices_def)

end
